theory Spec2Isabelle
  imports Main "HOL-Library.Word"
begin

section \<open>Data model of easydns.go\<close>

text \<open>
  The configuration types of the program (\<^verbatim>\<open>Record\<close>, \<^verbatim>\<open>Records\<close>,
  \<^verbatim>\<open>ForwardingConfig\<close>, \<^verbatim>\<open>ServerConfig\<close>, \<^verbatim>\<open>Config\<close>). \<^verbatim>\<open>Priority\<close> is a Go
  \<^verbatim>\<open>int\<close>; the program only prints it, so it is an unbounded integer here. \<^verbatim>\<open>TTL\<close>
  is a \<^verbatim>\<open>uint32\<close>.
\<close>

record Record =
  Type :: string
  Value :: string
  Priority :: int
  TTL :: "32 word"

type_synonym Records = "string \<rightharpoonup> Record"

record ForwardingConfig =
  Enabled :: bool
  Servers :: "string list"

record ServerConfig =
  BindAddress :: string
  Port :: string

record Config =
  Forwarding :: ForwardingConfig
  Server :: ServerConfig
  Records :: Records

text \<open>
  The message types belong to the DNS protocol library, which is not part of the
  program. Only the fields the handler reads or writes are kept, together with the
  header fields a reply is judged by. A resource record is kept in presentation form:
  its header (owner name, type mnemonic, TTL) and its rdata, one string per field.
  The field \<^verbatim>\<open>Name\<close> of the header is \<open>Hdr_Name\<close> here and the field \<^verbatim>\<open>Id\<close> of a
  message is \<open>MsgId\<close>.
\<close>

record Question =
  Name :: string
  Qtype :: "16 word"
  Qclass :: "16 word"

record RR_Header =
  Hdr_Name :: string
  Rrtype :: string
  Ttl :: "32 word"

record RR =
  Hdr :: RR_Header
  Rdata :: "string list"

record Msg =
  MsgId :: "16 word"
  Response :: bool
  Opcode :: int
  Rcode :: int
  Question :: "Question list"
  Answer :: "RR list"

text \<open>A Go \<^verbatim>\<open>error\<close> value, as far as the program observes it: its message.\<close>

datatype error = Error string

fun Error_string :: "error \<Rightarrow> string" where
  "Error_string (Error s) = s"

text \<open>The zero value \<^verbatim>\<open>dns.Msg{}\<close>.\<close>

definition Msg_zero :: Msg where
  "Msg_zero = \<lparr>MsgId = 0, Response = False, Opcode = 0, Rcode = 0, Question = [], Answer = []\<rparr>"

section \<open>The library the program calls\<close>

text \<open>
  Three functions of the protocol library are called by the program and are parameters
  of the model: \<^verbatim>\<open>dns.NewRR\<close> (parse the textual presentation of one record),
  \<^verbatim>\<open>(*dns.Msg).SetReply\<close> (turn the receiver into a reply to a request) and
  \<^verbatim>\<open>(*dns.Client).Exchange\<close> (one synchronous exchange with one server). An exchange is
  an effect on the network, whose state \<open>'n\<close> is passed along. Whenever \<^verbatim>\<open>NewRR\<close> reports
  no error for a line that starts with an owner name it returns a resource record, and
  whenever \<^verbatim>\<open>Exchange\<close> reports no error it returns a message.
\<close>

record 'n dnslib =
  NewRR :: "string \<Rightarrow> error + RR"
  SetReply :: "Msg \<Rightarrow> Msg \<Rightarrow> Msg"
  Exchange :: "Msg \<Rightarrow> string \<Rightarrow> 'n \<Rightarrow> (error + Msg) \<times> 'n"

text \<open>What the handler does to the outside, in the order it does it.\<close>

datatype event =
    LogLine string
  | ExchangeEv (ev_server: string) (ev_query: Msg) (ev_outcome: "error + Msg")
  | WriteMsgEv Msg

section \<open>Standard library functions\<close>

text \<open>\<^verbatim>\<open>strings.HasSuffix\<close> and \<^verbatim>\<open>strings.TrimSuffix\<close>.\<close>

definition HasSuffix :: "string \<Rightarrow> string \<Rightarrow> bool" where
  "HasSuffix s suffix \<longleftrightarrow>
     length suffix \<le> length s \<and> drop (length s - length suffix) s = suffix"

definition TrimSuffix :: "string \<Rightarrow> string \<Rightarrow> string" where
  "TrimSuffix s suffix =
     (if HasSuffix s suffix then take (length s - length suffix) s else s)"

text \<open>The verb \<^verbatim>\<open>%d\<close> of \<^verbatim>\<open>fmt.Sprintf\<close> on an integer: decimal, with a minus sign.\<close>

definition digit_char :: "nat \<Rightarrow> char" where
  "digit_char d = ''0123456789'' ! d"

fun digits :: "nat \<Rightarrow> string" where
  "digits n = (if n < 10 then [digit_char n] else digits (n div 10) @ [digit_char (n mod 10)])"

declare digits.simps [simp del]

definition fmt_d :: "int \<Rightarrow> string" where
  "fmt_d i = (if i < 0 then CHR ''-'' # digits (nat (- i)) else digits (nat i))"

section \<open>The forwarder\<close>

text \<open>
  \<^verbatim>\<open>requestFromUpsreamServers\<close>: the loop over the upstream servers returns at the first
  exchange without error; after the loop the function returns its own error. The
  result comes with the exchanges made and the network state they leave.
\<close>

definition upstream_error :: error where
  "upstream_error = Error ''failed to get response from upstream servers''"

fun requestFromUpsreamServers ::
  "'n dnslib \<Rightarrow> Msg \<Rightarrow> string list \<Rightarrow> 'n \<Rightarrow> (error + Msg) \<times> event list \<times> 'n" where
  "requestFromUpsreamServers lib r [] n = (Inl upstream_error, [], n)"
| "requestFromUpsreamServers lib r (server # upstreamServers) n =
     (case Exchange lib r server n of
        (Inr resp, n') \<Rightarrow> (Inr resp, [ExchangeEv server r (Inr resp)], n')
      | (Inl err, n') \<Rightarrow>
          (case requestFromUpsreamServers lib r upstreamServers n' of
             (res, evs, n'') \<Rightarrow> (res, ExchangeEv server r (Inl err) # evs, n'')))"

section \<open>The query handler\<close>

text \<open>
  The body of the loop over the questions in \<^verbatim>\<open>handleDNSRequest\<close>: from the reply under
  construction and the network state to the reply, the events of this question and the
  network state after it.
\<close>

definition question_step ::
  "'n dnslib \<Rightarrow> Records \<Rightarrow> Config \<Rightarrow> Msg \<Rightarrow> Question \<Rightarrow> Msg \<Rightarrow> 'n \<Rightarrow> Msg \<times> event list \<times> 'n" where
  "question_step lib records config r q msg n =
     (let domain = TrimSuffix (Name q) ''.'' in
      case records domain of
        Some record \<Rightarrow>
          (let made =
             (if Type record \<in> {''A'', ''AAAA'', ''CNAME'', ''TXT'', ''NS'', ''PTR''} then
                Some (NewRR lib (Name q @ '' '' @ Type record @ '' '' @ Value record))
              else if Type record = ''MX'' then
                Some (NewRR lib (Name q @ '' '' @ Type record @ '' '' @
                        fmt_d (Priority record) @ '' '' @ Value record))
              else if Type record = ''SRV'' then
                Some (NewRR lib (Name q @ '' '' @ Type record @ '' '' @
                        fmt_d (Priority record) @ '' '' @ fmt_d 0 @ '' '' @ fmt_d 0 @
                        '' '' @ Value record))
              else None)
           in case made of
                None \<Rightarrow> (msg, [LogLine (''Unsupported record type: '' @ Type record)], n)
              | Some (Inr rr) \<Rightarrow>
                  (msg\<lparr>Answer := Answer msg @ [rr\<lparr>Hdr := (Hdr rr)\<lparr>Ttl := TTL record\<rparr>\<rparr>]\<rparr>, [], n)
              | Some (Inl err) \<Rightarrow>
                  (msg, [LogLine (''Failed to create RR: '' @ Error_string err)], n))
      | None \<Rightarrow>
          (if Enabled (Forwarding config) then
             (case requestFromUpsreamServers lib r (Servers (Forwarding config)) n of
                (Inl err, evs, n') \<Rightarrow> (msg, evs @ [LogLine (Error_string err)], n')
              | (Inr upstreamResponse, evs, n') \<Rightarrow>
                  (msg\<lparr>Answer := Answer msg @ Answer upstreamResponse\<rparr>, evs, n'))
           else (msg, [], n)))"

fun questions_loop ::
  "'n dnslib \<Rightarrow> Records \<Rightarrow> Config \<Rightarrow> Msg \<Rightarrow> Question list \<Rightarrow> Msg \<Rightarrow> 'n \<Rightarrow> Msg \<times> event list \<times> 'n" where
  "questions_loop lib records config r [] msg n = (msg, [], n)"
| "questions_loop lib records config r (q # qs) msg n =
     (case question_step lib records config r q msg n of
        (msg', evs, n') \<Rightarrow>
          (case questions_loop lib records config r qs msg' n' of
             (msg'', evs', n'') \<Rightarrow> (msg'', evs @ evs', n'')))"

text \<open>
  How a call of the handler ends: it returns, or the index expression
  \<^verbatim>\<open>r.Question[0]\<close> panics.
\<close>

datatype ending = Returned | Panic_index_out_of_range

text \<open>
  \<^verbatim>\<open>handleDNSRequest\<close>. \<open>config\<close> is the global the handler reads, \<open>remoteAddr\<close> the text
  of \<^verbatim>\<open>w.RemoteAddr()\<close>. The reply is written before the arguments of the last log line
  are evaluated.
\<close>

definition handleDNSRequest ::
  "'n dnslib \<Rightarrow> Records \<Rightarrow> Config \<Rightarrow> string \<Rightarrow> Msg \<Rightarrow> 'n \<Rightarrow> ending \<times> event list \<times> 'n" where
  "handleDNSRequest lib records config remoteAddr r n =
     (case questions_loop lib records config r (Question r) (SetReply lib Msg_zero r) n of
        (msg, evs, n') \<Rightarrow>
          (case Question r of
             [] \<Rightarrow> (Panic_index_out_of_range, evs @ [WriteMsgEv msg], n')
           | q0 # _ \<Rightarrow>
               (Returned,
                evs @ [WriteMsgEv msg,
                       LogLine (''query: '' @ Name q0 @ '' from: '' @ remoteAddr)],
                n')))"

text \<open>The configuration the program ships with.\<close>

definition DefaultConfig :: Config where
  "DefaultConfig =
     \<lparr>Forwarding = \<lparr>Enabled = True, Servers = [''8.8.8.8:53'', ''8.8.4.4:53'']\<rparr>,
      Server = \<lparr>BindAddress = [], Port = ''53''\<rparr>,
      Records =
        [''test.com'' \<mapsto> \<lparr>Type = ''A'', Value = ''127.0.0.1'', Priority = 0, TTL = 600\<rparr>,
         ''www.test.com'' \<mapsto> \<lparr>Type = ''CNAME'', Value = ''test.com'', Priority = 0, TTL = 600\<rparr>,
         ''mail.test.com'' \<mapsto>
            \<lparr>Type = ''MX'', Value = ''mail.somehost.com'', Priority = 10, TTL = 60\<rparr>]\<rparr>"

section \<open>Notions the properties are stated with\<close>

text \<open>
  The record types of the two groups of the \<^verbatim>\<open>switch\<close>, and the text each case hands to
  \<^verbatim>\<open>dns.NewRR\<close> (\<open>None\<close> in the default case).
\<close>

definition simple_kinds :: "string set" where
  "simple_kinds = {''A'', ''AAAA'', ''CNAME'', ''TXT'', ''NS'', ''PTR''}"

definition supported_kinds :: "string set" where
  "supported_kinds = simple_kinds \<union> {''MX'', ''SRV''}"

definition rr_text :: "Question \<Rightarrow> Record \<Rightarrow> string option" where
  "rr_text q record =
     (if Type record \<in> simple_kinds then
        Some (Name q @ '' '' @ Type record @ '' '' @ Value record)
      else if Type record = ''MX'' then
        Some (Name q @ '' '' @ Type record @ '' '' @ fmt_d (Priority record) @ '' '' @
              Value record)
      else if Type record = ''SRV'' then
        Some (Name q @ '' '' @ Type record @ '' '' @ fmt_d (Priority record) @ '' '' @
              fmt_d 0 @ '' '' @ fmt_d 0 @ '' '' @ Value record)
      else None)"

text \<open>The lookup in the record store, as the handler does it.\<close>

definition lookup_record :: "Records \<Rightarrow> string \<Rightarrow> Record option" where
  "lookup_record records name = records (TrimSuffix name ''.'')"

text \<open>
  Presentation format: fields separated by single spaces. A token is a non-empty field
  without blanks and without the characters the zone-file syntax gives a meaning to.
\<close>

definition delimiter :: "char \<Rightarrow> bool" where
  "delimiter c \<longleftrightarrow>
     c \<in> {CHR '' '', CHR 0x09, CHR 0x0A, CHR 0x0D, CHR '';'', CHR ''('', CHR '')'',
          CHR 0x22, CHR 0x5C, CHR ''@'', CHR ''$''}"

definition token :: "string \<Rightarrow> bool" where
  "token s \<longleftrightarrow> s \<noteq> [] \<and> list_all (\<lambda>c. \<not> delimiter c) s"


text \<open>The value of a decimal numeral, to read back what \<open>fmt_d\<close> prints.\<close>

definition digit_val :: "char \<Rightarrow> nat" where
  "digit_val c = of_char c - 48"

definition dec_val :: "string \<Rightarrow> nat" where
  "dec_val s = foldl (\<lambda>a c. 10 * a + digit_val c) 0 s"


text \<open>
  Modelled from the spec: the record construction primitive of the protocol library
  (\<^verbatim>\<open>dns.NewRR\<close>), which is not among the sources. Section 6 describes it as keyed by the
  textual presentation of name, type and rdata, and section 8 gives its result on the
  shipped MX entry, whose exchange comes back with the root separator at its end. The
  library reads a line relative to the root: the owner name and the host names in the
  rdata are made absolute, a preference, priority, weight or port is a 16-bit number
  and is printed without leading zeros, an IPv4 address is a dotted quad, and the TTL
  is 3600 unless the line gives one. \<open>NewRR_plain\<close> covers the lines made of plain
  tokens separated by single spaces, with the type in second place; IPv6 addresses are
  not covered. An error of \<open>NewRR_plain\<close> means that the library rejects the line or
  that the line is not covered.
\<close>

definition Fqdn :: "string \<Rightarrow> string" where
  "Fqdn s = (if HasSuffix s ''.'' then s else s @ ''.'')"

fun split_at :: "char \<Rightarrow> string \<Rightarrow> string list" where
  "split_at d [] = [[]]"
| "split_at d (c # cs) =
     (if c = d then [] # split_at d cs
      else (case split_at d cs of w # ws \<Rightarrow> (c # w) # ws | [] \<Rightarrow> [[c]]))"

definition is_digit :: "char \<Rightarrow> bool" where
  "is_digit c \<longleftrightarrow> c \<in> set ''0123456789''"

definition ParseUint16 :: "string \<Rightarrow> nat option" where
  "ParseUint16 s =
     (if s \<noteq> [] \<and> list_all is_digit s \<and> dec_val s < 65536 then Some (dec_val s) else None)"

definition domain_name :: "string \<Rightarrow> bool" where
  "domain_name s \<longleftrightarrow>
     s \<noteq> [] \<and> length (Fqdn s) \<le> 254 \<and>
     (Fqdn s = ''.'' \<or>
      list_all (\<lambda>l. l \<noteq> [] \<and> length l \<le> 63) (split_at CHR ''.'' (butlast (Fqdn s))))"

definition octet :: "string \<Rightarrow> bool" where
  "octet s \<longleftrightarrow>
     s \<noteq> [] \<and> length s \<le> 3 \<and> list_all is_digit s \<and> (s = ''0'' \<or> hd s \<noteq> CHR ''0'') \<and>
     dec_val s \<le> 255"

definition ipv4_text :: "string \<Rightarrow> bool" where
  "ipv4_text s \<longleftrightarrow>
     (case split_at CHR ''.'' s of
        [a, b, c, d] \<Rightarrow> octet a \<and> octet b \<and> octet c \<and> octet d
      | _ \<Rightarrow> False)"

definition parsed_rdata :: "string \<Rightarrow> string list \<Rightarrow> string list option" where
  "parsed_rdata ty rdata =
     (if ty = ''A'' then
        (case rdata of [addr] \<Rightarrow> if ipv4_text addr then Some [addr] else None | _ \<Rightarrow> None)
      else if ty \<in> {''CNAME'', ''NS'', ''PTR''} then
        (case rdata of
           [host] \<Rightarrow> if domain_name host then Some [Fqdn host] else None
         | _ \<Rightarrow> None)
      else if ty = ''TXT'' then
        (if rdata \<noteq> [] \<and> list_all (\<lambda>t. length t \<le> 255) rdata then Some rdata else None)
      else if ty = ''MX'' then
        (case rdata of
           [pref, host] \<Rightarrow>
             (case ParseUint16 pref of
                Some n \<Rightarrow> if domain_name host then Some [digits n, Fqdn host] else None
              | None \<Rightarrow> None)
         | _ \<Rightarrow> None)
      else if ty = ''SRV'' then
        (case rdata of
           [prio, weight, port, target] \<Rightarrow>
             (case (ParseUint16 prio, ParseUint16 weight, ParseUint16 port) of
                (Some p, Some w, Some po) \<Rightarrow>
                  if domain_name target then Some [digits p, digits w, digits po, Fqdn target]
                  else None
              | _ \<Rightarrow> None)
         | _ \<Rightarrow> None)
      else None)"

definition NewRR_plain :: "string \<Rightarrow> error + RR" where
  "NewRR_plain s =
     (case split_at CHR '' '' s of
        name # ty # rdata \<Rightarrow>
          if list_all token (name # ty # rdata) \<and> domain_name name then
            (case parsed_rdata ty rdata of
               Some rd \<Rightarrow>
                 Inr \<lparr>Hdr = \<lparr>Hdr_Name = Fqdn name, Rrtype = ty, Ttl = 3600\<rparr>, Rdata = rd\<rparr>
             | None \<Rightarrow> Inl (Error ''rdata rejected or not covered''))
          else Inl (Error ''not a line of plain tokens with a valid owner name'')
      | _ \<Rightarrow> Inl (Error ''missing fields''))"


text \<open>
  What the properties of the reply assume of \<^verbatim>\<open>SetReply\<close>: the reply has the
  identifier of the request, is marked as a response and has the status code 0
  (success).
\<close>

definition reply_constructor :: "(Msg \<Rightarrow> Msg \<Rightarrow> Msg) \<Rightarrow> bool" where
  "reply_constructor setReply \<longleftrightarrow>
     (\<forall>m r. MsgId (setReply m r) = MsgId r \<and> Response (setReply m r) \<and>
            Rcode (setReply m r) = 0)"

text \<open>
  The answers one question adds to the reply, and the answers of the questions of a
  list, each in the network state the questions before it leave.
\<close>

definition per_question ::
  "'n dnslib \<Rightarrow> Records \<Rightarrow> Config \<Rightarrow> Msg \<Rightarrow> Question \<Rightarrow> 'n \<Rightarrow> RR list \<times> 'n" where
  "per_question lib records config r q n =
     (case question_step lib records config r q Msg_zero n of
        (m, evs, n') \<Rightarrow> (Answer m, n'))"

fun per_question_results ::
  "'n dnslib \<Rightarrow> Records \<Rightarrow> Config \<Rightarrow> Msg \<Rightarrow> Question list \<Rightarrow> 'n \<Rightarrow> RR list list" where
  "per_question_results lib records config r [] n = []"
| "per_question_results lib records config r (q # qs) n =
     (case per_question lib records config r q n of
        (as, n') \<Rightarrow> as # per_question_results lib records config r qs n')"

text \<open>The three failures of a question, read off the three branches that log and skip.\<close>

datatype resolve_error = UnsupportedRecordType | MalformedRecordData | AllUpstreamsFailed

definition question_error ::
  "'n dnslib \<Rightarrow> Records \<Rightarrow> Config \<Rightarrow> Msg \<Rightarrow> Question \<Rightarrow> 'n \<Rightarrow> resolve_error option" where
  "question_error lib records config r q n =
     (case lookup_record records (Name q) of
        Some record \<Rightarrow>
          (case rr_text q record of
             None \<Rightarrow> Some UnsupportedRecordType
           | Some text \<Rightarrow> if isl (NewRR lib text) then Some MalformedRecordData else None)
      | None \<Rightarrow>
          if Enabled (Forwarding config) \<and>
             isl (fst (requestFromUpsreamServers lib r (Servers (Forwarding config)) n))
          then Some AllUpstreamsFailed else None)"

text \<open>
  The forwarder in the words of its description: every server of the list is asked in
  turn, and the first outcome that is not an error is the result.
\<close>

fun attempts :: "'n dnslib \<Rightarrow> Msg \<Rightarrow> string list \<Rightarrow> 'n \<Rightarrow> (error + Msg) list" where
  "attempts lib r [] n = []"
| "attempts lib r (server # servers) n =
     (case Exchange lib r server n of (out, n') \<Rightarrow> out # attempts lib r servers n')"

definition first_success :: "(error + Msg) list \<Rightarrow> error + Msg" where
  "first_success outs =
     (case dropWhile isl outs of [] \<Rightarrow> Inl upstream_error | out # _ \<Rightarrow> out)"

text \<open>
  The exchanges the words describe: those with the servers that fail before the first
  success, and the successful one.
\<close>

definition made_attempts :: "(error + Msg) list \<Rightarrow> (error + Msg) list" where
  "made_attempts outs = takeWhile isl outs @ take 1 (dropWhile isl outs)"

definition exchange_events :: "Msg \<Rightarrow> string list \<Rightarrow> (error + Msg) list \<Rightarrow> event list" where
  "exchange_events r servers outs = map (\<lambda>(s, out). ExchangeEv s r out) (zip servers outs)"

text \<open>The messages written and the exchanges made, among the events of a call.\<close>

fun written :: "event list \<Rightarrow> Msg list" where
  "written [] = []"
| "written (WriteMsgEv m # evs) = m # written evs"
| "written (_ # evs) = written evs"

fun exchanges :: "event list \<Rightarrow> event list" where
  "exchanges [] = []"
| "exchanges (ExchangeEv s q out # evs) = ExchangeEv s q out # exchanges evs"
| "exchanges (_ # evs) = exchanges evs"

section \<open>A library instance to run the program on\<close>

text \<open>
  An instance of the three library functions, for evaluating the handler on concrete
  queries: \<open>NewRR_plain\<close> for the parser, a reply constructor that does what \<^verbatim>\<open>SetReply\<close>
  does to the fields kept here, and a network in which only the server 8.8.4.4:53
  answers; the network state counts the exchanges.
\<close>

definition sample_SetReply :: "Msg \<Rightarrow> Msg \<Rightarrow> Msg" where
  "sample_SetReply m r =
     m\<lparr>MsgId := MsgId r, Response := True, Opcode := Opcode r, Rcode := 0,
       Question := take 1 (Question r)\<rparr>"

definition sample_answer :: RR where
  "sample_answer =
     \<lparr>Hdr = \<lparr>Hdr_Name = ''example.org.'', Rrtype = ''A'', Ttl = 300\<rparr>,
      Rdata = [''93.184.216.34'']\<rparr>"

definition sample_response :: "Msg \<Rightarrow> Msg" where
  "sample_response r = (sample_SetReply Msg_zero r)\<lparr>Answer := [sample_answer]\<rparr>"

definition sample_Exchange :: "Msg \<Rightarrow> string \<Rightarrow> nat \<Rightarrow> (error + Msg) \<times> nat" where
  "sample_Exchange r server k =
     (if server = ''8.8.4.4:53'' then Inr (sample_response r) else Inl (Error ''i/o timeout''),
      Suc k)"

definition sample_lib :: "nat dnslib" where
  "sample_lib =
     \<lparr>NewRR = NewRR_plain, SetReply = sample_SetReply, Exchange = sample_Exchange\<rparr>"

definition sample_question :: "string \<Rightarrow> Question" where
  "sample_question name = \<lparr>Name = name, Qtype = 1, Qclass = 1\<rparr>"

definition sample_query :: "string list \<Rightarrow> Msg" where
  "sample_query names = Msg_zero\<lparr>MsgId := 4660, Question := map sample_question names\<rparr>"

section \<open>Lemmas about the model\<close>

lemma HasSuffix_dot: "HasSuffix s ''.'' \<longleftrightarrow> s \<noteq> [] \<and> last s = CHR ''.''"
proof (cases s rule: rev_cases)
  case Nil
  then show ?thesis by (simp add: HasSuffix_def)
next
  case (snoc ys y)
  then show ?thesis by (auto simp: HasSuffix_def)
qed

lemma TrimSuffix_dot: "TrimSuffix s ''.'' = (if s \<noteq> [] \<and> last s = CHR ''.'' then butlast s else s)"
  by (simp add: TrimSuffix_def HasSuffix_dot butlast_conv_take)

lemma TrimSuffix_snoc_dot: "TrimSuffix (d @ ''.'') ''.'' = d"
  by (simp add: TrimSuffix_dot)

lemma made_rr_text:
  "(if Type record \<in> {''A'', ''AAAA'', ''CNAME'', ''TXT'', ''NS'', ''PTR''} then
                Some (NewRR lib (Name q @ '' '' @ Type record @ '' '' @ Value record))
              else if Type record = ''MX'' then
                Some (NewRR lib (Name q @ '' '' @ Type record @ '' '' @
                        fmt_d (Priority record) @ '' '' @ Value record))
              else if Type record = ''SRV'' then
                Some (NewRR lib (Name q @ '' '' @ Type record @ '' '' @
                        fmt_d (Priority record) @ '' '' @ fmt_d 0 @ '' '' @ fmt_d 0 @
                        '' '' @ Value record))
              else None) = map_option (NewRR lib) (rr_text q record)"
  unfolding rr_text_def simple_kinds_def by simp

lemma question_step_alt:
  "question_step lib records config r q msg n =
     (case lookup_record records (Name q) of
        Some record \<Rightarrow>
          (case rr_text q record of
             None \<Rightarrow> (msg, [LogLine (''Unsupported record type: '' @ Type record)], n)
           | Some text \<Rightarrow>
               (case NewRR lib text of
                  Inr rr \<Rightarrow>
                    (msg\<lparr>Answer := Answer msg @ [rr\<lparr>Hdr := (Hdr rr)\<lparr>Ttl := TTL record\<rparr>\<rparr>]\<rparr>, [], n)
                | Inl err \<Rightarrow> (msg, [LogLine (''Failed to create RR: '' @ Error_string err)], n)))
      | None \<Rightarrow>
          (if Enabled (Forwarding config) then
             (case requestFromUpsreamServers lib r (Servers (Forwarding config)) n of
                (Inl err, evs, n') \<Rightarrow> (msg, evs @ [LogLine (Error_string err)], n')
              | (Inr upstreamResponse, evs, n') \<Rightarrow>
                  (msg\<lparr>Answer := Answer msg @ Answer upstreamResponse\<rparr>, evs, n'))
           else (msg, [], n)))"
  unfolding question_step_def lookup_record_def Let_def made_rr_text
  by (simp split: option.splits sum.splits)

lemma question_step_append:
  "question_step lib records config r q msg n =
     (case question_step lib records config r q Msg_zero n of
        (m, evs, n') \<Rightarrow> (msg\<lparr>Answer := Answer msg @ Answer m\<rparr>, evs, n'))"
  unfolding question_step_alt
  by (simp add: Msg_zero_def split: option.splits sum.splits prod.splits)

lemma question_step_per_question:
  "question_step lib records config r q msg n =
     (msg\<lparr>Answer := Answer msg @ fst (per_question lib records config r q n)\<rparr>,
      fst (snd (question_step lib records config r q Msg_zero n)),
      snd (per_question lib records config r q n))"
  by (subst question_step_append) (simp add: per_question_def split: prod.splits)

lemma questions_loop_reply:
  "fst (questions_loop lib records config r qs msg n) =
     msg\<lparr>Answer := Answer msg @ concat (per_question_results lib records config r qs n)\<rparr>"
proof (induction qs arbitrary: msg n)
  case Nil
  show ?case by simp
next
  case (Cons q qs)
  show ?case
    apply (simp only: questions_loop.simps per_question_results.simps)
    apply (subst question_step_per_question)
    apply (simp add: split_beta Cons.IH)
    done
qed

lemma questions_loop_append:
  "questions_loop lib records config r (xs @ ys) msg n =
     (case questions_loop lib records config r xs msg n of
        (m', evs, n') \<Rightarrow>
          (case questions_loop lib records config r ys m' n' of
             (m'', evs', n'') \<Rightarrow> (m'', evs @ evs', n'')))"
  by (induction xs arbitrary: msg n) (simp_all split: prod.splits)

lemma length_per_question_results:
  "length (per_question_results lib records config r qs n) = length qs"
  by (induction qs arbitrary: n) (simp_all split: prod.splits)

lemma written_append: "written (xs @ ys) = written xs @ written ys"
  by (induction xs rule: written.induct) simp_all

lemma exchanges_append: "exchanges (xs @ ys) = exchanges xs @ exchanges ys"
  by (induction xs rule: exchanges.induct) simp_all

lemma written_forwarder:
  "requestFromUpsreamServers lib r servers n = (res, evs, n') \<Longrightarrow> written evs = []"
proof (induction servers arbitrary: n res evs n')
  case Nil
  then show ?case by simp
next
  case (Cons s servers)
  then show ?case
    by (fastforce split: prod.splits sum.splits)
qed

lemma written_question_step:
  "question_step lib records config r q msg n = (msg', evs, n') \<Longrightarrow> written evs = []"
  unfolding question_step_alt
  by (auto simp: written_append split: option.splits sum.splits prod.splits if_splits
           dest: written_forwarder)

lemma written_questions_loop:
  "questions_loop lib records config r qs msg n = (msg', evs, n') \<Longrightarrow> written evs = []"
proof (induction qs arbitrary: msg n msg' evs n')
  case Nil
  then show ?case by simp
next
  case (Cons q qs)
  then show ?case
    by (fastforce simp: written_append split: prod.splits dest: written_question_step)
qed

lemma forwarder_attempts:
  "requestFromUpsreamServers lib r servers n = (res, evs, n') \<Longrightarrow>
     res = first_success (attempts lib r servers n) \<and>
     evs = exchange_events r servers (made_attempts (attempts lib r servers n))"
proof (induction servers arbitrary: n res evs n')
  case Nil
  then show ?case
    by (simp add: first_success_def exchange_events_def made_attempts_def)
next
  case (Cons s servers)
  obtain out n1 where ex: "Exchange lib r s n = (out, n1)"
    by (cases "Exchange lib r s n")
  show ?case
  proof (cases out)
    case (Inr resp)
    with Cons.prems ex show ?thesis
      by (auto simp: first_success_def exchange_events_def made_attempts_def)
  next
    case (Inl err)
    obtain res1 evs1 n2 where
      rest: "requestFromUpsreamServers lib r servers n1 = (res1, evs1, n2)"
      by (cases "requestFromUpsreamServers lib r servers n1")
    from Cons.IH [OF rest] Cons.prems ex Inl rest show ?thesis
      by (auto simp: first_success_def exchange_events_def made_attempts_def)
  qed
qed

lemma isl_first_success: "isl (first_success outs) \<longleftrightarrow> list_all isl outs"
  by (induction outs) (simp_all add: first_success_def upstream_error_def)

lemma first_success_error: "list_all isl outs \<Longrightarrow> first_success outs = Inl upstream_error"
  by (induction outs) (simp_all add: first_success_def)

lemma length_attempts: "length (attempts lib r servers n) = length servers"
  by (induction servers arbitrary: n) (simp_all split: prod.splits)

lemma length_made_attempts: "length (made_attempts outs) \<le> length outs"
  by (induction outs) (simp_all add: made_attempts_def)















lemma is_digit_digits: "list_all is_digit (digits n)"
proof -
  have "is_digit c" if "c \<in> set (digits n)" for c
  proof -
    have d: "is_digit (digit_char k)" if "k < 10" for k
    proof -
      from that consider "k = 0" | "k = 1" | "k = 2" | "k = 3" | "k = 4" | "k = 5" | "k = 6"
        | "k = 7" | "k = 8" | "k = 9"
        by atomize_elim arith
      then show ?thesis
        by cases (simp_all add: digit_char_def is_digit_def)
    qed
    have "list_all is_digit (digits m)" for m
    proof (induction m rule: digits.induct)
      case (1 m)
      show ?case
      proof (cases "m < 10")
        case True
        with d [of m] show ?thesis by (subst digits.simps) simp
      next
        case False
        with d [of "m mod 10"] "1.IH" show ?thesis by (subst digits.simps) simp
      qed
    qed
    with that show ?thesis by (simp add: list_all_iff)
  qed
  then show ?thesis by (simp add: list_all_iff)
qed




lemma sample_reply_constructor: "reply_constructor sample_SetReply"
  by (simp add: reply_constructor_def sample_SetReply_def)





lemma question_step_net:
  "snd (snd (question_step lib records config r q msg n)) =
     snd (per_question lib records config r q n)"
  by (subst question_step_per_question) simp

lemma questions_loop_net:
  "snd (snd (questions_loop lib records config r qs msg n)) =
     snd (snd (questions_loop lib records config r qs msg' n))"
proof (induction qs arbitrary: msg msg' n)
  case Nil
  show ?case by simp
next
  case (Cons q qs)
  have "snd (snd (question_step lib records config r q msg n)) =
      snd (snd (question_step lib records config r q msg' n))"
    by (simp add: question_step_net)
  then show ?case
    using Cons.IH by (auto simp: split_beta)
qed

lemma per_question_results_append:
  "per_question_results lib records config r (xs @ ys) n =
     per_question_results lib records config r xs n @
     per_question_results lib records config r ys
       (snd (snd (questions_loop lib records config r xs msg n)))"
proof (induction xs arbitrary: n msg)
  case Nil
  show ?case by simp
next
  case (Cons q xs)
  show ?case
    using Cons.IH question_step_net [of lib records config r q msg n]
    by (simp add: split_beta)
qed

lemma handler_written:
  "written (fst (snd (handleDNSRequest lib records config remoteAddr r n))) =
     [(SetReply lib Msg_zero r)
        \<lparr>Answer := Answer (SetReply lib Msg_zero r) @
           concat (per_question_results lib records config r (Question r) n)\<rparr>]"
proof -
  obtain msg evs n1 where
    loop: "questions_loop lib records config r (Question r) (SetReply lib Msg_zero r) n =
             (msg, evs, n1)"
    by (cases "questions_loop lib records config r (Question r) (SetReply lib Msg_zero r) n")
  have quiet: "written evs = []"
    using loop by (rule written_questions_loop)
  have msg: "msg = (SetReply lib Msg_zero r)
        \<lparr>Answer := Answer (SetReply lib Msg_zero r) @
           concat (per_question_results lib records config r (Question r) n)\<rparr>"
    using questions_loop_reply [of lib records config r "Question r" "SetReply lib Msg_zero r" n]
      loop by simp
  have "written (fst (snd (handleDNSRequest lib records config remoteAddr r n))) = [msg]"
    unfolding handleDNSRequest_def loop
    by (cases "Question r") (simp_all add: written_append quiet)
  then show ?thesis
    by (simp only: msg)
qed

lemma handler_ending:
  "fst (handleDNSRequest lib records config remoteAddr r n) =
     (if Question r = [] then Panic_index_out_of_range else Returned)"
  unfolding handleDNSRequest_def
  by (cases "Question r") (simp_all add: split_beta)

lemma question_step_miss_off:
  "records (TrimSuffix (Name q) ''.'') = None \<Longrightarrow> \<not> Enabled (Forwarding config) \<Longrightarrow>
     question_step lib records config r q msg n = (msg, [], n)"
  by (simp add: question_step_alt lookup_record_def)

lemma sample_fmt_d_10: "fmt_d 10 = ''10''"
  by (simp add: fmt_d_def digits.simps digit_char_def)

lemmas NewRR_plain_eval =
  NewRR_plain_def token_def delimiter_def domain_name_def Fqdn_def HasSuffix_def
  parsed_rdata_def ipv4_text_def octet_def is_digit_def dec_val_def digit_val_def
  ParseUint16_def digits.simps digit_char_def

lemma NewRR_plain_shipped_A:
  "NewRR_plain ''test.com. A 127.0.0.1'' =
     Inr \<lparr>Hdr = \<lparr>Hdr_Name = ''test.com.'', Rrtype = ''A'', Ttl = 3600\<rparr>,
          Rdata = [''127.0.0.1'']\<rparr>"
  by (simp add: NewRR_plain_eval)

lemma NewRR_plain_shipped_CNAME:
  "NewRR_plain ''www.test.com. CNAME test.com'' =
     Inr \<lparr>Hdr = \<lparr>Hdr_Name = ''www.test.com.'', Rrtype = ''CNAME'', Ttl = 3600\<rparr>,
          Rdata = [''test.com.'']\<rparr>"
  by (simp add: NewRR_plain_eval)

lemma NewRR_plain_shipped_MX:
  "NewRR_plain ''mail.test.com. MX 10 mail.somehost.com'' =
     Inr \<lparr>Hdr = \<lparr>Hdr_Name = ''mail.test.com.'', Rrtype = ''MX'', Ttl = 3600\<rparr>,
          Rdata = [''10'', ''mail.somehost.com.'']\<rparr>"
  by (simp add: NewRR_plain_eval)

lemma NewRR_plain_SRV:
  "NewRR_plain ''_sip._tcp.test.com. SRV 5 0 0 sip.test.com'' =
     Inr \<lparr>Hdr = \<lparr>Hdr_Name = ''_sip._tcp.test.com.'', Rrtype = ''SRV'', Ttl = 3600\<rparr>,
          Rdata = [''5'', ''0'', ''0'', ''sip.test.com.'']\<rparr>"
  by (simp add: NewRR_plain_eval)

lemma NewRR_plain_wide_preference:
  "NewRR_plain ''mail.test.com. MX 65536 mail.somehost.com'' =
     Inl (Error ''rdata rejected or not covered'')"
  by (simp add: NewRR_plain_eval)

lemmas sample_eval =
  handleDNSRequest_def question_step_def per_question_def sample_query_def
  sample_question_def sample_lib_def sample_SetReply_def NewRR_plain_shipped_A
  NewRR_plain_shipped_CNAME NewRR_plain_shipped_MX NewRR_plain_SRV sample_Exchange_def
  sample_response_def sample_answer_def Msg_zero_def DefaultConfig_def TrimSuffix_def
  HasSuffix_def supported_kinds_def simple_kinds_def sample_fmt_d_10 upstream_error_def

lemma question_error_step:
  "question_error lib records config r q m = Some e \<Longrightarrow>
     fst (question_step lib records config r q msg m) = msg"
  unfolding question_step_alt question_error_def
  by (auto split: option.splits sum.splits prod.splits if_splits)

lemma question_error_omitted:
  "question_error lib records config r q m = Some e \<Longrightarrow>
     fst (per_question lib records config r q m) = []"
  using question_error_step [of lib records config r q m e Msg_zero]
  by (simp add: per_question_def split_beta Msg_zero_def)

lemma rr_text_unsupported: "Type record \<notin> supported_kinds \<Longrightarrow> rr_text q record = None"
  by (simp add: rr_text_def supported_kinds_def)

lemma question_step_unsupported:
  "records (TrimSuffix (Name q) ''.'') = Some record \<Longrightarrow> Type record \<notin> supported_kinds \<Longrightarrow>
     question_step lib records config r q msg n =
       (msg, [LogLine (''Unsupported record type: '' @ Type record)], n)"
  by (simp add: question_step_alt lookup_record_def rr_text_unsupported)

lemma forwarder_first_answers:
  "fst (Exchange lib r s n) = Inr resp \<Longrightarrow>
     requestFromUpsreamServers lib r (s # rest) n =
       (Inr resp, [ExchangeEv s r (Inr resp)], snd (Exchange lib r s n))"
  by (cases "Exchange lib r s n") simp

lemma question_step_forwarded:
  "records (TrimSuffix (Name q) ''.'') = None \<Longrightarrow> Enabled (Forwarding config) \<Longrightarrow>
   Servers (Forwarding config) = s # rest \<Longrightarrow> fst (Exchange lib r s n) = Inr resp \<Longrightarrow>
     question_step lib records config r q msg n =
       (msg\<lparr>Answer := Answer msg @ Answer resp\<rparr>, [ExchangeEv s r (Inr resp)],
        snd (Exchange lib r s n))"
proof -
  assume miss: "records (TrimSuffix (Name q) ''.'') = None"
    and on: "Enabled (Forwarding config)"
    and first: "Servers (Forwarding config) = s # rest"
    and up: "fst (Exchange lib r s n) = Inr resp"
  have "requestFromUpsreamServers lib r (Servers (Forwarding config)) n =
      (Inr resp, [ExchangeEv s r (Inr resp)], snd (Exchange lib r s n))"
    unfolding first using up by (rule forwarder_first_answers)
  with miss on show ?thesis
    by (simp add: question_step_alt lookup_record_def)
qed

lemma question_step_hit_exchanges:
  "records (TrimSuffix (Name q) ''.'') = Some record \<Longrightarrow>
     exchanges (fst (snd (question_step lib records config r q msg n))) = []"
  by (simp add: question_step_alt lookup_record_def split: option.splits sum.splits)

lemma loop_exchanges:
  assumes on: "Enabled (Forwarding config)"
    and first: "Servers (Forwarding config) = s # rest"
    and up: "\<And>m. fst (Exchange lib r s m) = Inr resp"
  shows "exchanges (fst (snd (questions_loop lib records config r qs msg n))) =
     replicate (length (filter (\<lambda>q. records (TrimSuffix (Name q) ''.'') = None) qs))
       (ExchangeEv s r (Inr resp))"
proof (induction qs arbitrary: msg n)
  case Nil
  show ?case by simp
next
  case (Cons q qs)
  show ?case
  proof (cases "records (TrimSuffix (Name q) ''.'')")
    case None
    from question_step_forwarded [where records = records, OF None on first up]
    show ?thesis
      by (simp add: None Cons.IH split_beta exchanges_append)
  next
    case (Some found)
    from question_step_hit_exchanges [where records = records, OF Some, of lib config r msg n]
    show ?thesis
      by (simp add: Some Cons.IH split_beta exchanges_append)
  qed
qed

lemma loop_all_forwarded:
  assumes on: "Enabled (Forwarding config)"
    and first: "Servers (Forwarding config) = s # rest"
    and up: "\<And>m. fst (Exchange lib r s m) = Inr resp"
  shows "list_all (\<lambda>q. records (TrimSuffix (Name q) ''.'') = None) qs \<Longrightarrow>
     fst (questions_loop lib records config r qs msg n) =
       msg\<lparr>Answer := Answer msg @ concat (replicate (length qs) (Answer resp))\<rparr>"
proof (induction qs arbitrary: msg n)
  case Nil
  show ?case by simp
next
  case (Cons q qs)
  from Cons.prems have miss: "records (TrimSuffix (Name q) ''.'') = None"
    and rest: "list_all (\<lambda>q. records (TrimSuffix (Name q) ''.'') = None) qs"
    by simp_all
  from question_step_forwarded [where records = records, OF miss on first up] Cons.IH [OF rest]
  show ?case
    by (simp add: split_beta)
qed





section \<open>The properties\<close>




text \<open>
  C2: the forwarder asks the servers in the order of the list and returns the outcome of
  the first exchange that is not an error, whatever the status code of that response.
  It returns an error exactly when the exchange with every server of the list fails,
  and then it is its own error. It makes one exchange with each server up to and
  including the first that answers, and no other.
\<close>

theorem forwarder_first_success:
  "requestFromUpsreamServers lib r servers n = (res, evs, n') \<Longrightarrow>
     res = first_success (attempts lib r servers n) \<and>
     (isl res \<longleftrightarrow> list_all isl (attempts lib r servers n)) \<and>
     (isl res \<longrightarrow> res = Inl upstream_error) \<and>
     evs = exchange_events r servers (made_attempts (attempts lib r servers n)) \<and>
     length evs \<le> length servers \<and>
     map ev_server evs = take (length evs) servers"
proof -
  assume run: "requestFromUpsreamServers lib r servers n = (res, evs, n')"
  let ?outs = "attempts lib r servers n"
  from forwarder_attempts [OF run]
  have res: "res = first_success ?outs"
    and evs: "evs = exchange_events r servers (made_attempts ?outs)"
    by simp_all
  have len: "length (made_attempts ?outs) \<le> length servers"
    using length_made_attempts [of ?outs] by (simp add: length_attempts)
  have "length evs = length (made_attempts ?outs)"
    using len by (simp add: evs exchange_events_def)
  moreover have "map ev_server evs = take (length (made_attempts ?outs)) servers"
    unfolding evs exchange_events_def
    by (simp add: map_fst_zip_take comp_def case_prod_beta min_absorb1 len)
  ultimately show ?thesis
    using res evs len by (simp add: isl_first_success first_success_error)
qed

theorem forwarder_first_success_witness:
  "requestFromUpsreamServers sample_lib (sample_query [''nope.org.''])
       [''8.8.8.8:53'', ''8.8.4.4:53''] 0 =
     (Inr (sample_response (sample_query [''nope.org.''])),
      [ExchangeEv ''8.8.8.8:53'' (sample_query [''nope.org.'']) (Inl (Error ''i/o timeout'')),
       ExchangeEv ''8.8.4.4:53'' (sample_query [''nope.org.''])
         (Inr (sample_response (sample_query [''nope.org.''])))],
      2) \<and>
   first_success (attempts sample_lib (sample_query [''nope.org.''])
       [''8.8.8.8:53'', ''8.8.4.4:53''] 0) =
     Inr (sample_response (sample_query [''nope.org.''])) \<and>
   \<not> list_all isl (attempts sample_lib (sample_query [''nope.org.''])
       [''8.8.8.8:53'', ''8.8.4.4:53''] 0)"
proof -
  have run: "requestFromUpsreamServers sample_lib (sample_query [''nope.org.''])
       [''8.8.8.8:53'', ''8.8.4.4:53''] 0 =
     (Inr (sample_response (sample_query [''nope.org.''])),
      [ExchangeEv ''8.8.8.8:53'' (sample_query [''nope.org.'']) (Inl (Error ''i/o timeout'')),
       ExchangeEv ''8.8.4.4:53'' (sample_query [''nope.org.''])
         (Inr (sample_response (sample_query [''nope.org.''])))],
      2)"
    by (simp add: sample_lib_def sample_Exchange_def)
  from forwarder_first_success [OF run] run show ?thesis
    by simp
qed




text \<open>
  C4: a question that fails in one of the three ways (a record of an unsupported type,
  a text the library rejects, or no upstream server that answers) leaves the reply as
  it was. Whatever the query, the call writes one reply; its status code is the one
  \<^verbatim>\<open>SetReply\<close> gave it, which is 0 (\<open>reply_constructor\<close>), and its answer section is made
  of the answers of the questions before the failing one and of those after it, which
  are processed as they would be without it.
\<close>

theorem failures_not_fatal:
  assumes ctor: "reply_constructor (SetReply lib)"
    and split: "Question r = qs1 @ q # qs2"
    and failure: "question_error lib records config r q
        (snd (snd (questions_loop lib records config r qs1 (SetReply lib Msg_zero r) n))) = Some e"
  shows "fst (question_step lib records config r q msg
           (snd (snd (questions_loop lib records config r qs1 (SetReply lib Msg_zero r) n)))) = msg \<and>
         (\<exists>reply.
            written (fst (snd (handleDNSRequest lib records config remoteAddr r n))) = [reply] \<and>
            Rcode reply = 0 \<and> Response reply \<and> MsgId reply = MsgId r \<and>
            Answer reply =
              Answer (SetReply lib Msg_zero r) @
              concat (per_question_results lib records config r qs1 n) @
              concat (per_question_results lib records config r qs2
                (snd (snd (questions_loop lib records config r (qs1 @ [q])
                   (SetReply lib Msg_zero r) n)))))"
proof -
  let ?m0 = "SetReply lib Msg_zero r"
  let ?n1 = "snd (snd (questions_loop lib records config r qs1 ?m0 n))"
  let ?n2 = "snd (snd (questions_loop lib records config r (qs1 @ [q]) ?m0 n))"
  have omitted: "fst (per_question lib records config r q ?n1) = []"
    using failure by (rule question_error_omitted)
  have "per_question_results lib records config r (qs1 @ [q]) n =
      per_question_results lib records config r qs1 n @ [[]]"
    by (subst per_question_results_append [where msg = ?m0]) (simp add: split_beta omitted)
  moreover have "per_question_results lib records config r ((qs1 @ [q]) @ qs2) n =
      per_question_results lib records config r (qs1 @ [q]) n @
      per_question_results lib records config r qs2 ?n2"
    by (rule per_question_results_append)
  ultimately have blocks: "concat (per_question_results lib records config r (Question r) n) =
      concat (per_question_results lib records config r qs1 n) @
      concat (per_question_results lib records config r qs2 ?n2)"
    by (simp add: split)
  let ?reply = "?m0\<lparr>Answer := Answer ?m0 @
      concat (per_question_results lib records config r (Question r) n)\<rparr>"
  have hdr: "Rcode ?reply = 0 \<and> Response ?reply \<and> MsgId ?reply = MsgId r"
    using ctor by (simp add: reply_constructor_def)
  have "written (fst (snd (handleDNSRequest lib records config remoteAddr r n))) = [?reply]"
    by (rule handler_written)
  with hdr blocks question_error_step [OF failure, of msg] show ?thesis
    by simp
qed

theorem failures_not_fatal_witness:
  "question_error sample_lib (Records DefaultConfig)
       (DefaultConfig\<lparr>Forwarding := \<lparr>Enabled = True, Servers = [''8.8.8.8:53'']\<rparr>\<rparr>)
       (sample_query [''nope.org.'', ''test.com.'']) (sample_question ''nope.org.'') 0 =
     Some AllUpstreamsFailed \<and>
   handleDNSRequest sample_lib (Records DefaultConfig)
       (DefaultConfig\<lparr>Forwarding := \<lparr>Enabled = True, Servers = [''8.8.8.8:53'']\<rparr>\<rparr>)
       ''10.0.0.1:5353'' (sample_query [''nope.org.'', ''test.com.'']) 0 =
     (Returned,
      [ExchangeEv ''8.8.8.8:53'' (sample_query [''nope.org.'', ''test.com.''])
         (Inl (Error ''i/o timeout'')),
       LogLine ''failed to get response from upstream servers'',
       WriteMsgEv
         \<lparr>MsgId = 4660, Response = True, Opcode = 0, Rcode = 0,
          Question = [sample_question ''nope.org.''],
          Answer = [\<lparr>Hdr = \<lparr>Hdr_Name = ''test.com.'', Rrtype = ''A'', Ttl = 600\<rparr>,
                     Rdata = [''127.0.0.1'']\<rparr>]\<rparr>,
       LogLine ''query: nope.org. from: 10.0.0.1:5353''],
      1)"
proof -
  let ?config = "DefaultConfig\<lparr>Forwarding := \<lparr>Enabled = True, Servers = [''8.8.8.8:53'']\<rparr>\<rparr>"
  let ?r = "sample_query [''nope.org.'', ''test.com.'']"
  have ctor: "reply_constructor (SetReply sample_lib)"
    by (simp add: sample_lib_def sample_reply_constructor)
  have split: "Question ?r = [] @ sample_question ''nope.org.'' # [sample_question ''test.com.'']"
    by (simp add: sample_query_def)
  have failure: "question_error sample_lib (Records DefaultConfig) ?config ?r
      (sample_question ''nope.org.'')
      (snd (snd (questions_loop sample_lib (Records DefaultConfig) ?config ?r []
         (SetReply sample_lib Msg_zero ?r) 0))) = Some AllUpstreamsFailed"
    by (simp add: question_error_def lookup_record_def sample_eval)
  have run: "handleDNSRequest sample_lib (Records DefaultConfig) ?config ''10.0.0.1:5353'' ?r 0 =
     (Returned,
      [ExchangeEv ''8.8.8.8:53'' ?r (Inl (Error ''i/o timeout'')),
       LogLine ''failed to get response from upstream servers'',
       WriteMsgEv
         \<lparr>MsgId = 4660, Response = True, Opcode = 0, Rcode = 0,
          Question = [sample_question ''nope.org.''],
          Answer = [\<lparr>Hdr = \<lparr>Hdr_Name = ''test.com.'', Rrtype = ''A'', Ttl = 600\<rparr>,
                     Rdata = [''127.0.0.1'']\<rparr>]\<rparr>,
       LogLine ''query: nope.org. from: 10.0.0.1:5353''],
      1)"
    by (simp add: sample_eval)
  from failures_not_fatal [OF ctor split failure, of Msg_zero "''10.0.0.1:5353''"] failure run
  show ?thesis
    by simp
qed

text \<open>
  C5: a question whose name, less its trailing root separator, is no key of the record
  store adds no answer when forwarding is disabled, and makes no exchange and no log
  line. The call still writes one reply, which has the identifier of the query and is
  marked as a response (as \<^verbatim>\<open>SetReply\<close> makes it, \<open>reply_constructor\<close>), and the call returns.
\<close>

theorem miss_without_forwarding:
  assumes miss: "records (TrimSuffix (Name q) ''.'') = None"
    and off: "\<not> Enabled (Forwarding config)"
    and asked: "q \<in> set (Question r)"
    and ctor: "reply_constructor (SetReply lib)"
  shows "question_step lib records config r q msg n = (msg, [], n) \<and>
         fst (per_question lib records config r q n) = [] \<and>
         (\<exists>reply.
            written (fst (snd (handleDNSRequest lib records config remoteAddr r n0))) = [reply] \<and>
            MsgId reply = MsgId r \<and> Response reply \<and>
            Answer reply = Answer (SetReply lib Msg_zero r) @
              concat (per_question_results lib records config r (Question r) n0)) \<and>
         fst (handleDNSRequest lib records config remoteAddr r n0) = Returned"
proof -
  have step: "question_step lib records config r q m n = (m, [], n)" for m
    using miss off by (rule question_step_miss_off)
  have none: "fst (per_question lib records config r q n) = []"
    by (simp add: per_question_def step Msg_zero_def)
  let ?reply = "(SetReply lib Msg_zero r)
        \<lparr>Answer := Answer (SetReply lib Msg_zero r) @
           concat (per_question_results lib records config r (Question r) n0)\<rparr>"
  have hdr: "MsgId ?reply = MsgId r \<and> Response ?reply"
    using ctor by (simp add: reply_constructor_def)
  have "Question r \<noteq> []"
    using asked by auto
  then have "fst (handleDNSRequest lib records config remoteAddr r n0) = Returned"
    by (simp add: handler_ending)
  with step none hdr show ?thesis
    by (simp add: handler_written)
qed

theorem miss_without_forwarding_witness:
  "question_step sample_lib (Records DefaultConfig)
       (DefaultConfig\<lparr>Forwarding := \<lparr>Enabled = False, Servers = []\<rparr>\<rparr>)
       (sample_query [''unknown.test.com.'']) (sample_question ''unknown.test.com.'') Msg_zero 0 =
     (Msg_zero, [], 0) \<and>
   handleDNSRequest sample_lib (Records DefaultConfig)
       (DefaultConfig\<lparr>Forwarding := \<lparr>Enabled = False, Servers = []\<rparr>\<rparr>) ''10.0.0.1:5353''
       (sample_query [''unknown.test.com.'']) 0 =
     (Returned,
      [WriteMsgEv \<lparr>MsgId = 4660, Response = True, Opcode = 0, Rcode = 0,
                   Question = [sample_question ''unknown.test.com.''], Answer = []\<rparr>,
       LogLine ''query: unknown.test.com. from: 10.0.0.1:5353''],
      0)"
proof -
  let ?config = "DefaultConfig\<lparr>Forwarding := \<lparr>Enabled = False, Servers = []\<rparr>\<rparr>"
  let ?q = "sample_question ''unknown.test.com.''"
  let ?r = "sample_query [''unknown.test.com.'']"
  have miss: "Records DefaultConfig (TrimSuffix (Name ?q) ''.'') = None"
    by (simp add: DefaultConfig_def sample_question_def TrimSuffix_dot)
  have off: "\<not> Enabled (Forwarding ?config)"
    by simp
  have asked: "?q \<in> set (Question ?r)"
    by (simp add: sample_query_def)
  have ctor: "reply_constructor (SetReply sample_lib)"
    by (simp add: sample_lib_def sample_reply_constructor)
  have step: "question_step sample_lib (Records DefaultConfig) ?config ?r ?q Msg_zero 0 =
      (Msg_zero, [], 0)"
    using miss_without_forwarding [where records = "Records DefaultConfig", OF miss off asked ctor,
        of Msg_zero 0]
    by simp
  have "handleDNSRequest sample_lib (Records DefaultConfig) ?config ''10.0.0.1:5353'' ?r 0 =
     (Returned,
      [WriteMsgEv \<lparr>MsgId = 4660, Response = True, Opcode = 0, Rcode = 0,
                   Question = [?q], Answer = []\<rparr>,
       LogLine ''query: unknown.test.com. from: 10.0.0.1:5353''],
      0)"
    by (simp add: handleDNSRequest_def sample_query_def sample_question_def sample_lib_def
        sample_SetReply_def Msg_zero_def question_step_def DefaultConfig_def TrimSuffix_def
        HasSuffix_def)
  with step show ?thesis by simp
qed

text \<open>
  C6: when the store holds for the question a record whose type is none of A, AAAA,
  CNAME, TXT, NS, PTR, MX and SRV, the handler logs the unsupported type and adds
  nothing for the question. The reply and the network state after the whole list of
  questions are those of the list without this question, and the reply is written.
\<close>

theorem unsupported_type_skipped:
  assumes hit: "records (TrimSuffix (Name q) ''.'') = Some record"
    and kind: "Type record \<notin> {''A'', ''AAAA'', ''CNAME'', ''TXT'', ''NS'', ''PTR'', ''MX'', ''SRV''}"
    and split: "Question r = qs1 @ q # qs2"
  shows "question_step lib records config r q msg n =
           (msg, [LogLine (''Unsupported record type: '' @ Type record)], n) \<and>
         question_error lib records config r q n = Some UnsupportedRecordType \<and>
         fst (questions_loop lib records config r (qs1 @ q # qs2) msg n) =
           fst (questions_loop lib records config r (qs1 @ qs2) msg n) \<and>
         snd (snd (questions_loop lib records config r (qs1 @ q # qs2) msg n)) =
           snd (snd (questions_loop lib records config r (qs1 @ qs2) msg n)) \<and>
         written (fst (snd (handleDNSRequest lib records config remoteAddr r n))) =
           [fst (questions_loop lib records config r (qs1 @ qs2) (SetReply lib Msg_zero r) n)]"
proof -
  from kind have unsupported: "Type record \<notin> supported_kinds"
    by (simp add: supported_kinds_def simple_kinds_def)
  have step: "question_step lib records config r q m k =
      (m, [LogLine (''Unsupported record type: '' @ Type record)], k)" for m k
    using hit unsupported by (rule question_step_unsupported)
  have err: "question_error lib records config r q n = Some UnsupportedRecordType"
    using hit unsupported by (simp add: question_error_def lookup_record_def rr_text_unsupported)
  have same: "fst (questions_loop lib records config r (qs1 @ q # qs2) m k) =
        fst (questions_loop lib records config r (qs1 @ qs2) m k) \<and>
      snd (snd (questions_loop lib records config r (qs1 @ q # qs2) m k)) =
        snd (snd (questions_loop lib records config r (qs1 @ qs2) m k))" for m k
    by (simp add: questions_loop_append step split_beta)
  have "written (fst (snd (handleDNSRequest lib records config remoteAddr r n))) =
      [fst (questions_loop lib records config r (Question r) (SetReply lib Msg_zero r) n)]"
    by (simp add: handler_written questions_loop_reply)
  with step err same show ?thesis
    by (simp add: split)
qed

theorem unsupported_type_skipped_witness:
  "handleDNSRequest sample_lib
       ((Records DefaultConfig)
          (''soa.test.com'' \<mapsto> \<lparr>Type = ''SOA'', Value = ''ns.test.com'', Priority = 0, TTL = 5\<rparr>))
       (DefaultConfig\<lparr>Forwarding := \<lparr>Enabled = False, Servers = []\<rparr>\<rparr>) ''10.0.0.1:5353''
       (sample_query [''soa.test.com.'', ''test.com.'']) 0 =
     (Returned,
      [LogLine ''Unsupported record type: SOA'',
       WriteMsgEv
         \<lparr>MsgId = 4660, Response = True, Opcode = 0, Rcode = 0,
          Question = [sample_question ''soa.test.com.''],
          Answer = [\<lparr>Hdr = \<lparr>Hdr_Name = ''test.com.'', Rrtype = ''A'', Ttl = 600\<rparr>,
                     Rdata = [''127.0.0.1'']\<rparr>]\<rparr>,
       LogLine ''query: soa.test.com. from: 10.0.0.1:5353''],
      0) \<and>
   fst (questions_loop sample_lib
       ((Records DefaultConfig)
          (''soa.test.com'' \<mapsto> \<lparr>Type = ''SOA'', Value = ''ns.test.com'', Priority = 0, TTL = 5\<rparr>))
       (DefaultConfig\<lparr>Forwarding := \<lparr>Enabled = False, Servers = []\<rparr>\<rparr>)
       (sample_query [''soa.test.com.'', ''test.com.'']) [sample_question ''test.com.'']
       (sample_SetReply Msg_zero (sample_query [''soa.test.com.'', ''test.com.''])) 0) =
     \<lparr>MsgId = 4660, Response = True, Opcode = 0, Rcode = 0,
      Question = [sample_question ''soa.test.com.''],
      Answer = [\<lparr>Hdr = \<lparr>Hdr_Name = ''test.com.'', Rrtype = ''A'', Ttl = 600\<rparr>,
                 Rdata = [''127.0.0.1'']\<rparr>]\<rparr>"
proof -
  let ?soa = "\<lparr>Type = ''SOA'', Value = ''ns.test.com'', Priority = 0, TTL = 5\<rparr>"
  let ?store = "(Records DefaultConfig)(''soa.test.com'' \<mapsto> ?soa)"
  let ?config = "DefaultConfig\<lparr>Forwarding := \<lparr>Enabled = False, Servers = []\<rparr>\<rparr>"
  let ?r = "sample_query [''soa.test.com.'', ''test.com.'']"
  have hit: "?store (TrimSuffix (Name (sample_question ''soa.test.com.'')) ''.'') = Some ?soa"
    by (simp add: sample_question_def TrimSuffix_dot)
  have kind: "Type ?soa \<notin> {''A'', ''AAAA'', ''CNAME'', ''TXT'', ''NS'', ''PTR'', ''MX'', ''SRV''}"
    by simp
  have split: "Question ?r = [] @ sample_question ''soa.test.com.'' # [sample_question ''test.com.'']"
    by (simp add: sample_query_def)
  have run: "handleDNSRequest sample_lib ?store ?config ''10.0.0.1:5353'' ?r 0 =
     (Returned,
      [LogLine ''Unsupported record type: SOA'',
       WriteMsgEv
         \<lparr>MsgId = 4660, Response = True, Opcode = 0, Rcode = 0,
          Question = [sample_question ''soa.test.com.''],
          Answer = [\<lparr>Hdr = \<lparr>Hdr_Name = ''test.com.'', Rrtype = ''A'', Ttl = 600\<rparr>,
                     Rdata = [''127.0.0.1'']\<rparr>]\<rparr>,
       LogLine ''query: soa.test.com. from: 10.0.0.1:5353''],
      0)"
    by (simp add: sample_eval)
  from unsupported_type_skipped [where records = ?store and lib = sample_lib
      and config = ?config and msg = Msg_zero and n = 0 and remoteAddr = "''10.0.0.1:5353''",
      OF hit kind split] run
  show ?thesis
    by (simp add: sample_lib_def)
qed

text \<open>
  C7: the loop body reads the store at one key, the question name less one trailing
  root separator, by equality of strings. When the store has nothing at that key the
  body takes the miss branch (nothing, or the forwarder); when it has an entry there
  the body builds the local answer from that entry; and an entry at any other key, such
  as the same name in another case, a parent domain or a wildcard pattern, makes no
  difference to what the body does.
\<close>

theorem store_lookup_by_stripped_name:
  "(records (if Name q \<noteq> [] \<and> last (Name q) = CHR ''.'' then butlast (Name q) else Name q) =
      None \<longrightarrow>
      question_step lib records config r q msg n =
        (if Enabled (Forwarding config) then
           (case requestFromUpsreamServers lib r (Servers (Forwarding config)) n of
              (Inl err, evs, n') \<Rightarrow> (msg, evs @ [LogLine (Error_string err)], n')
            | (Inr resp, evs, n') \<Rightarrow> (msg\<lparr>Answer := Answer msg @ Answer resp\<rparr>, evs, n'))
         else (msg, [], n))) \<and>
   (records (if Name q \<noteq> [] \<and> last (Name q) = CHR ''.'' then butlast (Name q) else Name q) =
      Some found \<longrightarrow>
      question_step lib records config r q msg n =
        (case rr_text q found of
           None \<Rightarrow> (msg, [LogLine (''Unsupported record type: '' @ Type found)], n)
         | Some line \<Rightarrow>
             (case NewRR lib line of
                Inr rr \<Rightarrow>
                  (msg\<lparr>Answer := Answer msg @ [rr\<lparr>Hdr := (Hdr rr)\<lparr>Ttl := TTL found\<rparr>\<rparr>]\<rparr>, [], n)
              | Inl err \<Rightarrow>
                  (msg, [LogLine (''Failed to create RR: '' @ Error_string err)], n)))) \<and>
   (key \<noteq> (if Name q \<noteq> [] \<and> last (Name q) = CHR ''.'' then butlast (Name q) else Name q) \<longrightarrow>
      question_step lib (records(key := entry)) config r q msg n =
        question_step lib records config r q msg n)"
  by (simp add: question_step_alt lookup_record_def TrimSuffix_dot)

theorem store_lookup_by_stripped_name_witness:
  "question_step sample_lib (Records DefaultConfig)
       (DefaultConfig\<lparr>Forwarding := \<lparr>Enabled = False, Servers = []\<rparr>\<rparr>)
       (sample_query [''test.com.'']) (sample_question ''test.com.'') Msg_zero 0 =
     (Msg_zero\<lparr>Answer :=
        [\<lparr>Hdr = \<lparr>Hdr_Name = ''test.com.'', Rrtype = ''A'', Ttl = 600\<rparr>,
          Rdata = [''127.0.0.1'']\<rparr>]\<rparr>, [], 0) \<and>
   question_step sample_lib (Records DefaultConfig)
       (DefaultConfig\<lparr>Forwarding := \<lparr>Enabled = False, Servers = []\<rparr>\<rparr>)
       (sample_query [''TEST.COM.'']) (sample_question ''TEST.COM.'') Msg_zero 0 =
     (Msg_zero, [], 0) \<and>
   question_step sample_lib (Records DefaultConfig)
       (DefaultConfig\<lparr>Forwarding := \<lparr>Enabled = False, Servers = []\<rparr>\<rparr>)
       (sample_query [''sub.test.com.'']) (sample_question ''sub.test.com.'') Msg_zero 0 =
     (Msg_zero, [], 0) \<and>
   question_step sample_lib (Records DefaultConfig)
       (DefaultConfig\<lparr>Forwarding := \<lparr>Enabled = False, Servers = []\<rparr>\<rparr>)
       (sample_query [''test.com..'']) (sample_question ''test.com..'') Msg_zero 0 =
     (Msg_zero, [], 0) \<and>
   question_step sample_lib
       ((Records DefaultConfig)
          (''*.test.com'' := Some \<lparr>Type = ''A'', Value = ''127.0.0.2'', Priority = 0, TTL = 5\<rparr>))
       (DefaultConfig\<lparr>Forwarding := \<lparr>Enabled = False, Servers = []\<rparr>\<rparr>)
       (sample_query [''sub.test.com.'']) (sample_question ''sub.test.com.'') Msg_zero 0 =
     (Msg_zero, [], 0)"
proof -
  let ?config = "DefaultConfig\<lparr>Forwarding := \<lparr>Enabled = False, Servers = []\<rparr>\<rparr>"
  let ?entry = "Some \<lparr>Type = ''A'', Value = ''127.0.0.2'', Priority = 0, TTL = 5\<rparr>"
  let ?A = "\<lparr>Type = ''A'', Value = ''127.0.0.1'', Priority = 0, TTL = 600\<rparr>"
  have off: "\<not> Enabled (Forwarding ?config)"
    by simp
  have hit: "Records DefaultConfig
      (if Name (sample_question ''test.com.'') \<noteq> [] \<and>
          last (Name (sample_question ''test.com.'')) = CHR ''.''
       then butlast (Name (sample_question ''test.com.''))
       else Name (sample_question ''test.com.'')) = Some ?A"
    by (simp add: sample_question_def DefaultConfig_def)
  have line: "rr_text (sample_question ''test.com.'') ?A = Some ''test.com. A 127.0.0.1''"
    by (simp add: rr_text_def simple_kinds_def sample_question_def)
  have miss: "Records DefaultConfig
      (if Name (sample_question name) \<noteq> [] \<and> last (Name (sample_question name)) = CHR ''.''
       then butlast (Name (sample_question name)) else Name (sample_question name)) = None"
    if "name \<in> {''TEST.COM.'', ''sub.test.com.'', ''test.com..''}" for name
    using that by (auto simp: sample_question_def DefaultConfig_def)
  have other: "''*.test.com'' \<noteq>
      (if Name (sample_question ''sub.test.com.'') \<noteq> [] \<and>
          last (Name (sample_question ''sub.test.com.'')) = CHR ''.''
       then butlast (Name (sample_question ''sub.test.com.''))
       else Name (sample_question ''sub.test.com.''))"
    by (simp add: sample_question_def)
  note inst = store_lookup_by_stripped_name [where lib = sample_lib and config = ?config
      and msg = Msg_zero and n = 0]
  have "question_step sample_lib (Records DefaultConfig) ?config (sample_query [''test.com.''])
      (sample_question ''test.com.'') Msg_zero 0 =
     (Msg_zero\<lparr>Answer :=
        [\<lparr>Hdr = \<lparr>Hdr_Name = ''test.com.'', Rrtype = ''A'', Ttl = 600\<rparr>,
          Rdata = [''127.0.0.1'']\<rparr>]\<rparr>, [], 0)"
    using inst [where records = "Records DefaultConfig" and q = "sample_question ''test.com.''"
        and found = ?A and r = "sample_query [''test.com.'']"] hit
    by (simp add: line sample_lib_def NewRR_plain_shipped_A Msg_zero_def)
  moreover have "question_step sample_lib (Records DefaultConfig) ?config (sample_query [name])
      (sample_question name) Msg_zero 0 = (Msg_zero, [], 0)"
    if "name \<in> {''TEST.COM.'', ''sub.test.com.'', ''test.com..''}" for name
    using inst [where records = "Records DefaultConfig" and q = "sample_question name"
        and r = "sample_query [name]"] miss [OF that] off
    by simp
  moreover have "question_step sample_lib ((Records DefaultConfig)(''*.test.com'' := ?entry))
      ?config (sample_query [''sub.test.com.'']) (sample_question ''sub.test.com.'') Msg_zero 0 =
    question_step sample_lib (Records DefaultConfig) ?config (sample_query [''sub.test.com.''])
      (sample_question ''sub.test.com.'') Msg_zero 0"
    using inst [where records = "Records DefaultConfig"
        and q = "sample_question ''sub.test.com.''" and key = "''*.test.com''"
        and entry = ?entry and r = "sample_query [''sub.test.com.'']"] other
    by simp
  ultimately show ?thesis
    by simp
qed

text \<open>
  C8: the questions are processed one after the other, each in the network state the
  questions before it leave, and what a question adds does not depend on the answers
  gathered so far. The answer section of the reply is the answers of the first
  question, then those of the second, and so on, whatever the mix of local answers,
  misses and forwarded answers: one block (possibly empty) per question, in the order
  of the questions.
\<close>

theorem answers_in_question_order:
  "fst (questions_loop lib records config r qs msg n) =
     msg\<lparr>Answer := Answer msg @ concat (per_question_results lib records config r qs n)\<rparr> \<and>
   length (per_question_results lib records config r qs n) = length qs \<and>
   per_question_results lib records config r (xs @ q # ys) n ! length xs =
     fst (per_question lib records config r q
            (snd (snd (questions_loop lib records config r xs msg n)))) \<and>
   fst (question_step lib records config r q msg n) =
     msg\<lparr>Answer := Answer msg @ fst (per_question lib records config r q n)\<rparr> \<and>
   written (fst (snd (handleDNSRequest lib records config remoteAddr r n))) =
     [(SetReply lib Msg_zero r)
        \<lparr>Answer := Answer (SetReply lib Msg_zero r) @
           concat (per_question_results lib records config r (Question r) n)\<rparr>]"
proof -
  have "per_question_results lib records config r (xs @ q # ys) n ! length xs =
      fst (per_question lib records config r q
             (snd (snd (questions_loop lib records config r xs msg n))))"
    by (subst per_question_results_append [where msg = msg])
      (simp add: nth_append length_per_question_results split_beta)
  moreover have "fst (question_step lib records config r q msg n) =
      msg\<lparr>Answer := Answer msg @ fst (per_question lib records config r q n)\<rparr>"
    by (subst question_step_per_question) simp
  ultimately show ?thesis
    by (simp add: questions_loop_reply length_per_question_results handler_written)
qed


theorem answers_in_question_order_witness:
  "per_question_results sample_lib (Records DefaultConfig) DefaultConfig
       (sample_query [''test.com.'', ''nope.org.'', ''mail.test.com.''])
       (Question (sample_query [''test.com.'', ''nope.org.'', ''mail.test.com.''])) 0 =
     [[\<lparr>Hdr = \<lparr>Hdr_Name = ''test.com.'', Rrtype = ''A'', Ttl = 600\<rparr>,
        Rdata = [''127.0.0.1'']\<rparr>],
      [sample_answer],
      [\<lparr>Hdr = \<lparr>Hdr_Name = ''mail.test.com.'', Rrtype = ''MX'', Ttl = 60\<rparr>,
        Rdata = [''10'', ''mail.somehost.com.'']\<rparr>]] \<and>
   written (fst (snd (handleDNSRequest sample_lib (Records DefaultConfig) DefaultConfig
       ''10.0.0.1:5353'' (sample_query [''test.com.'', ''nope.org.'', ''mail.test.com.'']) 0))) =
     [\<lparr>MsgId = 4660, Response = True, Opcode = 0, Rcode = 0,
       Question = [sample_question ''test.com.''],
       Answer =
         [\<lparr>Hdr = \<lparr>Hdr_Name = ''test.com.'', Rrtype = ''A'', Ttl = 600\<rparr>,
           Rdata = [''127.0.0.1'']\<rparr>,
          sample_answer,
          \<lparr>Hdr = \<lparr>Hdr_Name = ''mail.test.com.'', Rrtype = ''MX'', Ttl = 60\<rparr>,
           Rdata = [''10'', ''mail.somehost.com.'']\<rparr>]\<rparr>]"
proof -
  let ?r = "sample_query [''test.com.'', ''nope.org.'', ''mail.test.com.'']"
  have blocks: "per_question_results sample_lib (Records DefaultConfig) DefaultConfig ?r
       (Question ?r) 0 =
     [[\<lparr>Hdr = \<lparr>Hdr_Name = ''test.com.'', Rrtype = ''A'', Ttl = 600\<rparr>,
        Rdata = [''127.0.0.1'']\<rparr>],
      [sample_answer],
      [\<lparr>Hdr = \<lparr>Hdr_Name = ''mail.test.com.'', Rrtype = ''MX'', Ttl = 60\<rparr>,
        Rdata = [''10'', ''mail.somehost.com.'']\<rparr>]]"
    by (simp add: sample_eval)
  have reply: "SetReply sample_lib Msg_zero ?r =
      \<lparr>MsgId = 4660, Response = True, Opcode = 0, Rcode = 0,
       Question = [sample_question ''test.com.''], Answer = []\<rparr>"
    by (simp add: sample_eval)
  from answers_in_question_order [of sample_lib "Records DefaultConfig" DefaultConfig ?r
      "Question ?r" Msg_zero 0 "[]" "sample_question ''test.com.''" "[]" "''10.0.0.1:5353''"]
  have "written (fst (snd (handleDNSRequest sample_lib (Records DefaultConfig) DefaultConfig
       ''10.0.0.1:5353'' ?r 0))) =
     [(SetReply sample_lib Msg_zero ?r)
        \<lparr>Answer := Answer (SetReply sample_lib Msg_zero ?r) @
           concat (per_question_results sample_lib (Records DefaultConfig) DefaultConfig ?r
             (Question ?r) 0)\<rparr>]"
    by simp
  with blocks reply show ?thesis
    by simp
qed

text \<open>
  C9: the handler writes the reply and then reads the name of the first question for
  its log line. A call panics with an index out of range exactly when the query has no
  question; the reply has been written by then, and with a question the log line is the
  last event.
\<close>

theorem handler_reads_first_question:
  "handleDNSRequest lib records config remoteAddr r n = (e, evs, n') \<Longrightarrow>
     (e = Panic_index_out_of_range \<longleftrightarrow> Question r = []) \<and>
     (\<exists>before reply.
        written before = [] \<and>
        evs = before @ WriteMsgEv reply #
              (case Question r of
                 [] \<Rightarrow> []
               | q0 # _ \<Rightarrow> [LogLine (''query: '' @ Name q0 @ '' from: '' @ remoteAddr)]))"
proof -
  assume run: "handleDNSRequest lib records config remoteAddr r n = (e, evs, n')"
  obtain msg before n1 where
    loop: "questions_loop lib records config r (Question r) (SetReply lib Msg_zero r) n =
             (msg, before, n1)"
    by (cases "questions_loop lib records config r (Question r) (SetReply lib Msg_zero r) n")
  have quiet: "written before = []"
    using loop by (rule written_questions_loop)
  show ?thesis
  proof (cases "Question r")
    case Nil
    with run loop quiet show ?thesis
      unfolding handleDNSRequest_def by auto
  next
    case (Cons q0 qs)
    with run loop quiet show ?thesis
      unfolding handleDNSRequest_def by auto
  qed
qed

theorem handler_reads_first_question_witness:
  "handleDNSRequest sample_lib (Records DefaultConfig) DefaultConfig ''10.0.0.1:5353''
       (sample_query []) 0 =
     (Panic_index_out_of_range, [WriteMsgEv (sample_SetReply Msg_zero (sample_query []))], 0) \<and>
   (Panic_index_out_of_range = Panic_index_out_of_range \<longleftrightarrow> Question (sample_query []) = [])"
proof -
  have run: "handleDNSRequest sample_lib (Records DefaultConfig) DefaultConfig ''10.0.0.1:5353''
       (sample_query []) 0 =
     (Panic_index_out_of_range, [WriteMsgEv (sample_SetReply Msg_zero (sample_query []))], 0)"
    by (simp add: handleDNSRequest_def sample_query_def sample_lib_def)
  from handler_reads_first_question [OF run] run show ?thesis by simp
qed

text \<open>
  C10: with forwarding enabled, a question that misses the record store makes the
  handler forward the query it received, with all its questions, and append the whole
  answer section of the response. With a first upstream server that answers every
  exchange with the same response, the handler makes one exchange per missing question,
  each with the whole query, and a query whose questions all miss gets the answers of
  that response once per question.
\<close>

theorem each_miss_forwards_whole_query:
  assumes on: "Enabled (Forwarding config)"
    and first: "Servers (Forwarding config) = s # rest"
    and up: "\<forall>m. fst (Exchange lib r s m) = Inr resp"
  shows "(records (TrimSuffix (Name q) ''.'') = None \<longrightarrow>
            question_step lib records config r q msg n =
              (msg\<lparr>Answer := Answer msg @ Answer resp\<rparr>, [ExchangeEv s r (Inr resp)],
               snd (Exchange lib r s n))) \<and>
         exchanges (fst (snd (questions_loop lib records config r qs msg n))) =
           replicate (length (filter (\<lambda>q. records (TrimSuffix (Name q) ''.'') = None) qs))
             (ExchangeEv s r (Inr resp)) \<and>
         (list_all (\<lambda>q. records (TrimSuffix (Name q) ''.'') = None) qs \<longrightarrow>
            fst (questions_loop lib records config r qs msg n) =
              msg\<lparr>Answer := Answer msg @ concat (replicate (length qs) (Answer resp))\<rparr>)"
proof -
  from up have up': "fst (Exchange lib r s m) = Inr resp" for m
    by simp
  show ?thesis
    using question_step_forwarded [where records = records, OF _ on first up', of q msg n]
      loop_exchanges [OF on first up', of records qs msg n]
      loop_all_forwarded [OF on first up', of records qs msg n]
    by blast
qed


theorem each_miss_forwards_whole_query_witness:
  "handleDNSRequest sample_lib (Records DefaultConfig)
       (DefaultConfig\<lparr>Forwarding := \<lparr>Enabled = True, Servers = [''8.8.4.4:53'']\<rparr>\<rparr>)
       ''10.0.0.1:5353'' (sample_query [''a.org.'', ''b.org.'']) 0 =
     (Returned,
      [ExchangeEv ''8.8.4.4:53'' (sample_query [''a.org.'', ''b.org.''])
         (Inr (sample_response (sample_query [''a.org.'', ''b.org.'']))),
       ExchangeEv ''8.8.4.4:53'' (sample_query [''a.org.'', ''b.org.''])
         (Inr (sample_response (sample_query [''a.org.'', ''b.org.'']))),
       WriteMsgEv
         \<lparr>MsgId = 4660, Response = True, Opcode = 0, Rcode = 0,
          Question = [sample_question ''a.org.''],
          Answer = [sample_answer, sample_answer]\<rparr>,
       LogLine ''query: a.org. from: 10.0.0.1:5353''],
      2) \<and>
   exchanges (fst (snd (questions_loop sample_lib (Records DefaultConfig)
       (DefaultConfig\<lparr>Forwarding := \<lparr>Enabled = True, Servers = [''8.8.4.4:53'']\<rparr>\<rparr>)
       (sample_query [''a.org.'', ''b.org.''])
       (Question (sample_query [''a.org.'', ''b.org.''])) Msg_zero 0))) =
     [ExchangeEv ''8.8.4.4:53'' (sample_query [''a.org.'', ''b.org.''])
         (Inr (sample_response (sample_query [''a.org.'', ''b.org.'']))),
      ExchangeEv ''8.8.4.4:53'' (sample_query [''a.org.'', ''b.org.''])
         (Inr (sample_response (sample_query [''a.org.'', ''b.org.''])))]"
proof -
  let ?config = "DefaultConfig\<lparr>Forwarding := \<lparr>Enabled = True, Servers = [''8.8.4.4:53'']\<rparr>\<rparr>"
  let ?r = "sample_query [''a.org.'', ''b.org.'']"
  have on: "Enabled (Forwarding ?config)"
    by simp
  have first: "Servers (Forwarding ?config) = ''8.8.4.4:53'' # []"
    by simp
  have up: "\<forall>m. fst (Exchange sample_lib ?r ''8.8.4.4:53'' m) = Inr (sample_response ?r)"
    by (simp add: sample_lib_def sample_Exchange_def)
  have misses: "filter (\<lambda>q. Records DefaultConfig (TrimSuffix (Name q) ''.'') = None)
      (Question ?r) = Question ?r"
    by (simp add: sample_query_def sample_question_def DefaultConfig_def TrimSuffix_dot)
  have run: "handleDNSRequest sample_lib (Records DefaultConfig) ?config ''10.0.0.1:5353'' ?r 0 =
     (Returned,
      [ExchangeEv ''8.8.4.4:53'' ?r (Inr (sample_response ?r)),
       ExchangeEv ''8.8.4.4:53'' ?r (Inr (sample_response ?r)),
       WriteMsgEv
         \<lparr>MsgId = 4660, Response = True, Opcode = 0, Rcode = 0,
          Question = [sample_question ''a.org.''],
          Answer = [sample_answer, sample_answer]\<rparr>,
       LogLine ''query: a.org. from: 10.0.0.1:5353''],
      2)"
    by (simp add: sample_eval)
  have two: "length (Question ?r) = 2"
    by (simp add: sample_query_def)
  from each_miss_forwards_whole_query [where records = "Records DefaultConfig"
      and qs = "Question ?r" and msg = Msg_zero and n = 0, OF on first up]
  have "exchanges (fst (snd (questions_loop sample_lib (Records DefaultConfig) ?config ?r
       (Question ?r) Msg_zero 0))) =
     replicate (length (Question ?r)) (ExchangeEv ''8.8.4.4:53'' ?r (Inr (sample_response ?r)))"
    by (simp only: misses)
  with run two show ?thesis
    by (simp add: numeral_2_eq_2)
qed

end
